theory Spec2Isabelle
  imports Main "HOL-Library.AList"
begin

section \<open>Python values used by the two caches\<close>

text \<open>
  The caches of \<^verbatim>\<open>loris/img_infocache.py\<close> (InfoCache, the metadata cache) and
  \<^verbatim>\<open>loris/imgcache.py\<close> (ImageCache, the derivative cache) are Python 2 classes
  whose methods read and write a POSIX file system. Every method is embedded as a
  function from the cache object and the world (file system, clock, log) to an outcome
  together with the cache object and the world it leaves behind. A raised exception is
  the outcome \<open>Inl e\<close>; the state that comes with it is the state at the raise.
\<close>

datatype errno = ENOENT | EEXIST | ENOTDIR | EISDIR | ENOTEMPTY | ELOOP | EBUSY

datatype pyexc =
    OSError errno
  | IOError errno
  | KeyError
  | AttributeError string
  | ValueError

datatype level = DEBUG | WARNING

text \<open>Modification times are whole numbers here, and every one of them has a
  \<^verbatim>\<open>datetime\<close>; the floats of the library, and the \<^verbatim>\<open>ValueError\<close> of
  \<^verbatim>\<open>utcfromtimestamp\<close> on a time out of its range, are left out.\<close>

datatype datetime = Datetime int

definition utcfromtimestamp :: "int \<Rightarrow> datetime" where
  "utcfromtimestamp t = Datetime t"

section \<open>String and path functions of the Python library\<close>

text \<open>\<^verbatim>\<open>s.split(c)\<close> for a one-character separator: every occurrence splits, empty
  pieces are kept, and the empty string gives one empty piece.\<close>

fun str_split :: "char \<Rightarrow> string \<Rightarrow> string list" where
  "str_split c [] = [[]]"
| "str_split c (x # xs) =
     (if x = c then [] # str_split c xs
      else (case str_split c xs of
              [] \<Rightarrow> [[x]]
            | p # ps \<Rightarrow> (x # p) # ps))"

text \<open>\<^verbatim>\<open>sep.join(xs)\<close>.\<close>

fun str_join :: "string \<Rightarrow> string list \<Rightarrow> string" where
  "str_join sep [] = []"
| "str_join sep [x] = x"
| "str_join sep (x # y # ys) = x @ sep @ str_join sep (y # ys)"

definition startswith :: "string \<Rightarrow> string \<Rightarrow> bool" where
  "startswith s p = (take (length p) s = p)"

definition endswith :: "string \<Rightarrow> string \<Rightarrow> bool" where
  "endswith s p = (drop (length s - length p) s = p \<and> length p \<le> length s)"

text \<open>\<^verbatim>\<open>s.rstrip('/')\<close>.\<close>

definition rstrip_slash :: "string \<Rightarrow> string" where
  "rstrip_slash s = rev (dropWhile (\<lambda>c. c = CHR ''/'') (rev s))"

text \<open>\<^verbatim>\<open>urllib.unquote\<close> of Python 2: the string is split at every percent sign; a
  piece that starts with two hexadecimal digits has them replaced by the byte they
  denote, any other piece gets its percent sign back.\<close>

definition hexval :: "char \<Rightarrow> nat option" where
  "hexval c =
     (let n = of_char c :: nat in
      if 48 \<le> n \<and> n \<le> 57 then Some (n - 48)
      else if 65 \<le> n \<and> n \<le> 70 then Some (n - 55)
      else if 97 \<le> n \<and> n \<le> 102 then Some (n - 87)
      else None)"

fun unquote_item :: "string \<Rightarrow> string" where
  "unquote_item (a # b # rest) =
     (case hexval a of
        None \<Rightarrow> CHR ''%'' # a # b # rest
      | Some x \<Rightarrow>
          (case hexval b of
             None \<Rightarrow> CHR ''%'' # a # b # rest
           | Some y \<Rightarrow> char_of (16 * x + y) # rest))"
| "unquote_item s = CHR ''%'' # s"

definition unquote :: "string \<Rightarrow> string" where
  "unquote s =
     (case str_split CHR ''%'' s of
        [] \<Rightarrow> s
      | b # bs \<Rightarrow> b @ concat (map unquote_item bs))"

text \<open>\<^verbatim>\<open>posixpath.join(a, b)\<close>; a call with three arguments is two of these, left to
  right, as the library's loop does.\<close>

definition path_join :: "string \<Rightarrow> string \<Rightarrow> string" where
  "path_join a b =
     (if startswith b ''/'' then b
      else if a = [] \<or> endswith a ''/'' then a @ b
      else a @ ''/'' @ b)"

text \<open>\<^verbatim>\<open>posixpath.split(p)\<close>: the part up to the last slash, with its trailing slashes
  removed unless it consists of slashes only, and the part after it.\<close>

definition path_split :: "string \<Rightarrow> string \<times> string" where
  "path_split p =
     (let head = rev (dropWhile (\<lambda>c. c \<noteq> CHR ''/'') (rev p));
          tail = rev (takeWhile (\<lambda>c. c \<noteq> CHR ''/'') (rev p))
      in (if head \<noteq> [] \<and> head \<noteq> replicate (length head) CHR ''/''
          then rstrip_slash head else head, tail))"

definition dirname :: "string \<Rightarrow> string" where
  "dirname p = fst (path_split p)"

section \<open>The file system\<close>

text \<open>
  A node is a regular file (content, modification time), a directory (modification time)
  or a symbolic link (target). The tree is an association list from the resolved
  location of a node, the list of its components below the root, to the node. The root
  directory is always there. Paths are resolved as POSIX does: empty and \<^verbatim>\<open>.\<close>
  components are skipped, \<^verbatim>\<open>..\<close> steps up, a symbolic link is replaced by its
  target, at most forty times, a relative path starts at the working directory. There
  are no permissions and no full disk in this model.
\<close>

datatype node = File string int | Dir int | Symlink string

record world =
  nodes :: "(string list \<times> node) list"
  cwd :: "string list"
  now :: int
  log :: "(level \<times> string) list"

definition node_at :: "world \<Rightarrow> string list \<Rightarrow> node option" where
  "node_at w q = (if q = [] then Some (Dir 0) else map_of (nodes w) q)"

definition is_dir_at :: "world \<Rightarrow> string list \<Rightarrow> bool" where
  "is_dir_at w q = (case node_at w q of Some (Dir t) \<Rightarrow> True | _ \<Rightarrow> False)"

definition isabs :: "string \<Rightarrow> bool" where
  "isabs p = startswith p ''/''"

definition comps :: "string \<Rightarrow> string list" where
  "comps p = filter (\<lambda>c. c \<noteq> [] \<and> c \<noteq> ''.'') (str_split CHR ''/'' p)"

fun walk :: "nat \<Rightarrow> world \<Rightarrow> bool \<Rightarrow> string list \<Rightarrow> string list \<Rightarrow> errno + string list" where
  "walk n w follow cur [] = Inr cur"
| "walk n w follow cur (c # cs) =
     (if c = ''..'' then walk n w follow (butlast cur) cs
      else
        (case node_at w (cur @ [c]) of
           None \<Rightarrow> (if cs = [] then Inr (cur @ [c]) else Inl ENOENT)
         | Some (File d t) \<Rightarrow> (if cs = [] then Inr (cur @ [c]) else Inl ENOTDIR)
         | Some (Dir t) \<Rightarrow> walk n w follow (cur @ [c]) cs
         | Some (Symlink tgt) \<Rightarrow>
             (if cs = [] \<and> \<not> follow then Inr (cur @ [c])
              else
                (case n of
                   0 \<Rightarrow> Inl ELOOP
                 | Suc m \<Rightarrow> walk m w follow (if isabs tgt then [] else cur) (comps tgt @ cs)))))"

definition resolve :: "world \<Rightarrow> bool \<Rightarrow> string \<Rightarrow> errno + string list" where
  "resolve w follow p =
     (if p = [] then Inl ENOENT
      else walk 40 w follow (if isabs p then [] else cwd w) (comps p))"

definition stat :: "world \<Rightarrow> string \<Rightarrow> errno + node" where
  "stat w p =
     (case resolve w True p of
        Inl e \<Rightarrow> Inl e
      | Inr q \<Rightarrow> (case node_at w q of None \<Rightarrow> Inl ENOENT | Some n \<Rightarrow> Inr n))"

definition lstat :: "world \<Rightarrow> string \<Rightarrow> errno + node" where
  "lstat w p =
     (case resolve w False p of
        Inl e \<Rightarrow> Inl e
      | Inr q \<Rightarrow> (case node_at w q of None \<Rightarrow> Inl ENOENT | Some n \<Rightarrow> Inr n))"

text \<open>\<^verbatim>\<open>os.path.exists\<close>, \<^verbatim>\<open>lexists\<close>, \<^verbatim>\<open>isdir\<close> and \<^verbatim>\<open>getmtime\<close>: the first three
  answer False where the system call fails, the last raises OSError.\<close>

definition path_exists :: "world \<Rightarrow> string \<Rightarrow> bool" where
  "path_exists w p = (case stat w p of Inl e \<Rightarrow> False | Inr n \<Rightarrow> True)"

definition path_lexists :: "world \<Rightarrow> string \<Rightarrow> bool" where
  "path_lexists w p = (case lstat w p of Inl e \<Rightarrow> False | Inr n \<Rightarrow> True)"

definition path_isdir :: "world \<Rightarrow> string \<Rightarrow> bool" where
  "path_isdir w p = (case stat w p of Inr (Dir t) \<Rightarrow> True | _ \<Rightarrow> False)"

definition getmtime :: "world \<Rightarrow> string \<Rightarrow> pyexc + int" where
  "getmtime w p =
     (case stat w p of
        Inl e \<Rightarrow> Inl (OSError e)
      | Inr (File d t) \<Rightarrow> Inr t
      | Inr (Dir t) \<Rightarrow> Inr t
      | Inr (Symlink tgt) \<Rightarrow> Inl (OSError ELOOP))"

text \<open>\<^verbatim>\<open>os.path.realpath\<close>: the absolute path with every symbolic link replaced by
  its target; what is not a link, or is not there, is kept as written. The library
  cuts a loop of links with a table of the links it has visited; here the walk stops
  following links after forty of them and keeps the rest as written.\<close>

fun lexical :: "string list \<Rightarrow> string list \<Rightarrow> string list" where
  "lexical cur [] = cur"
| "lexical cur (c # cs) = (if c = ''..'' then lexical (butlast cur) cs else lexical (cur @ [c]) cs)"

fun real_walk :: "nat \<Rightarrow> world \<Rightarrow> string list \<Rightarrow> string list \<Rightarrow> string list" where
  "real_walk n w cur [] = cur"
| "real_walk n w cur (c # cs) =
     (if c = ''..'' then real_walk n w (butlast cur) cs
      else
        (case node_at w (cur @ [c]) of
           Some (Symlink tgt) \<Rightarrow>
             (case n of
                0 \<Rightarrow> lexical cur (c # cs)
              | Suc m \<Rightarrow> real_walk m w (if isabs tgt then [] else cur) (comps tgt @ cs))
         | _ \<Rightarrow> real_walk n w (cur @ [c]) cs))"

definition realpath :: "world \<Rightarrow> string \<Rightarrow> string" where
  "realpath w p =
     ''/'' @ str_join ''/'' (real_walk 40 w (if isabs p then [] else cwd w) (comps p))"

subsection \<open>Operations that change the tree\<close>

text \<open>Adding or removing an entry sets the modification time of the directory that
  holds it.\<close>

definition touch_dir :: "world \<Rightarrow> string list \<Rightarrow> world" where
  "touch_dir w q =
     (case map_of (nodes w) q of
        Some (Dir t) \<Rightarrow> w\<lparr>nodes := AList.update q (Dir (now w)) (nodes w)\<rparr>
      | _ \<Rightarrow> w)"

definition put_node :: "world \<Rightarrow> string list \<Rightarrow> node \<Rightarrow> world" where
  "put_node w q n = touch_dir (w\<lparr>nodes := AList.update q n (nodes w)\<rparr>) (butlast q)"

definition del_node :: "world \<Rightarrow> string list \<Rightarrow> world" where
  "del_node w q = touch_dir (w\<lparr>nodes := AList.delete q (nodes w)\<rparr>) (butlast q)"

definition has_children :: "world \<Rightarrow> string list \<Rightarrow> bool" where
  "has_children w q = list_ex (\<lambda>kn. fst kn \<noteq> [] \<and> butlast (fst kn) = q) (nodes w)"

definition mkdir :: "world \<Rightarrow> string \<Rightarrow> pyexc + world" where
  "mkdir w p =
     (case resolve w False p of
        Inl e \<Rightarrow> Inl (OSError e)
      | Inr q \<Rightarrow>
          (case node_at w q of
             Some n \<Rightarrow> Inl (OSError EEXIST)
           | None \<Rightarrow> Inr (put_node w q (Dir (now w)))))"

definition rmdir :: "world \<Rightarrow> string \<Rightarrow> pyexc + world" where
  "rmdir w p =
     (case resolve w False p of
        Inl e \<Rightarrow> Inl (OSError e)
      | Inr q \<Rightarrow>
          (case node_at w q of
             None \<Rightarrow> Inl (OSError ENOENT)
           | Some (File d t) \<Rightarrow> Inl (OSError ENOTDIR)
           | Some (Symlink tgt) \<Rightarrow> Inl (OSError ENOTDIR)
           | Some (Dir t) \<Rightarrow>
               (if q = [] then Inl (OSError EBUSY)
                else if has_children w q then Inl (OSError ENOTEMPTY)
                else Inr (del_node w q))))"

definition unlink :: "world \<Rightarrow> string \<Rightarrow> pyexc + world" where
  "unlink w p =
     (case resolve w False p of
        Inl e \<Rightarrow> Inl (OSError e)
      | Inr q \<Rightarrow>
          (case node_at w q of
             None \<Rightarrow> Inl (OSError ENOENT)
           | Some (Dir t) \<Rightarrow> Inl (OSError EISDIR)
           | Some n \<Rightarrow> Inr (del_node w q)))"

definition symlink :: "world \<Rightarrow> string \<Rightarrow> string \<Rightarrow> pyexc + world" where
  "symlink w source link_name =
     (case resolve w False link_name of
        Inl e \<Rightarrow> Inl (OSError e)
      | Inr q \<Rightarrow>
          (case node_at w q of
             Some n \<Rightarrow> Inl (OSError EEXIST)
           | None \<Rightarrow> Inr (put_node w q (Symlink source))))"

text \<open>\<^verbatim>\<open>open(p, 'w')\<close>, one \<^verbatim>\<open>write\<close> and \<^verbatim>\<open>close\<close>; and \<^verbatim>\<open>open(p).read()\<close>.
  Both raise IOError.\<close>

definition write_file :: "world \<Rightarrow> string \<Rightarrow> string \<Rightarrow> pyexc + world" where
  "write_file w p data =
     (case resolve w True p of
        Inl e \<Rightarrow> Inl (IOError e)
      | Inr q \<Rightarrow>
          (case node_at w q of
             None \<Rightarrow> Inr (put_node w q (File data (now w)))
           | Some (File d t) \<Rightarrow> Inr (w\<lparr>nodes := AList.update q (File data (now w)) (nodes w)\<rparr>)
           | Some (Dir t) \<Rightarrow> Inl (IOError EISDIR)
           | Some (Symlink tgt) \<Rightarrow> Inl (IOError ELOOP)))"

definition read_file :: "world \<Rightarrow> string \<Rightarrow> pyexc + string" where
  "read_file w p =
     (case stat w p of
        Inl e \<Rightarrow> Inl (IOError e)
      | Inr (File d t) \<Rightarrow> Inr d
      | Inr (Dir t) \<Rightarrow> Inl (IOError EISDIR)
      | Inr (Symlink tgt) \<Rightarrow> Inl (IOError ELOOP))"

subsection \<open>\<^verbatim>\<open>os.makedirs\<close> and \<^verbatim>\<open>os.removedirs\<close>\<close>

text \<open>Both start with \<^verbatim>\<open>head, tail = split(name)\<close> and, when the tail is empty,
  \<^verbatim>\<open>head, tail = split(head)\<close>.\<close>

definition split_twice :: "string \<Rightarrow> string \<times> string" where
  "split_twice name =
     (case path_split name of
        (h, t) \<Rightarrow> if t = [] then path_split h else (h, t))"

definition mkdir_step :: "world \<Rightarrow> string \<Rightarrow> (pyexc + unit) \<times> world" where
  "mkdir_step w name = (case mkdir w name of Inl e \<Rightarrow> (Inl e, w) | Inr w1 \<Rightarrow> (Inr (), w1))"

lemma path_split_length: "length (fst (path_split p)) + length (snd (path_split p)) \<le> length p"
proof -
  let ?P = "\<lambda>c. c \<noteq> CHR ''/''"
  have a: "length (takeWhile ?P (rev p)) + length (dropWhile ?P (rev p)) = length p"
    by (metis length_append length_rev takeWhile_dropWhile_id)
  have b: "length (rstrip_slash h) \<le> length h" for h
    by (simp add: rstrip_slash_def length_dropWhile_le) (metis length_dropWhile_le length_rev)
  show ?thesis
    using a b [of "rev (dropWhile ?P (rev p))"]
    by (simp add: path_split_def Let_def)
qed

lemma split_twice_shorter:
  "snd (split_twice name) \<noteq> [] \<Longrightarrow> length (fst (split_twice name)) < length name"
proof -
  assume t: "snd (split_twice name) \<noteq> []"
  obtain h t0 where s: "path_split name = (h, t0)" by (cases "path_split name")
  have l1: "length h + length t0 \<le> length name"
    using path_split_length [of name] s by simp
  show ?thesis
  proof (cases "t0 = []")
    case True
    then have e: "split_twice name = path_split h" by (simp add: split_twice_def s)
    have "length (fst (path_split h)) + length (snd (path_split h)) \<le> length h"
      by (rule path_split_length)
    moreover have "snd (path_split h) \<noteq> []" using t e by simp
    ultimately show ?thesis using l1 e by (cases "snd (path_split h)") auto
  next
    case False
    then have e: "split_twice name = (h, t0)" by (simp add: split_twice_def s)
    show ?thesis using l1 False e by (cases t0) auto
  qed
qed

function makedirs :: "world \<Rightarrow> string \<Rightarrow> (pyexc + unit) \<times> world" where
  "makedirs w name =
     (if fst (split_twice name) \<noteq> [] \<and> snd (split_twice name) \<noteq> []
         \<and> \<not> path_exists w (fst (split_twice name))
      then
        (case makedirs w (fst (split_twice name)) of
           (Inl e, w1) \<Rightarrow>
             (if e = OSError EEXIST
              then (if snd (split_twice name) = ''.'' then (Inr (), w1) else mkdir_step w1 name)
              else (Inl e, w1))
         | (Inr u, w1) \<Rightarrow>
             (if snd (split_twice name) = ''.'' then (Inr (), w1) else mkdir_step w1 name))
      else mkdir_step w name)"
  by pat_completeness auto
termination
  by (relation "measure (\<lambda>(w, name). length name)") (auto simp: split_twice_shorter)

function removedirs_loop :: "world \<Rightarrow> string \<Rightarrow> string \<Rightarrow> world" where
  "removedirs_loop w head tail =
     (if head \<noteq> [] \<and> tail \<noteq> []
      then
        (case rmdir w head of
           Inl e \<Rightarrow> w
         | Inr w1 \<Rightarrow> removedirs_loop w1 (fst (path_split head)) (snd (path_split head)))
      else w)"
  by pat_completeness auto
termination
proof (relation "measure (\<lambda>(w, head, tail). length head + (if tail = [] then 0 else 1))", goal_cases)
  case 1
  show ?case by simp
next
  case (2 w head tail w1)
  show ?case
    using path_split_length [of head] 2
    by (cases "snd (path_split head)") auto
qed

definition removedirs :: "world \<Rightarrow> string \<Rightarrow> (pyexc + unit) \<times> world" where
  "removedirs w name =
     (case rmdir w name of
        Inl e \<Rightarrow> (Inl e, w)
      | Inr w1 \<Rightarrow>
          (Inr (), removedirs_loop w1 (fst (split_twice name)) (snd (split_twice name))))"

section \<open>The metadata cache: InfoCache\<close>

text \<open>
  A request has the attributes the cache reads: \<^verbatim>\<open>url\<close>, \<^verbatim>\<open>path\<close>, and the text
  that \<^verbatim>\<open>'%s' % (request,)\<close> prints in the log messages.
\<close>

record request =
  url :: string
  path :: string
  shown :: string

text \<open>
  Modelled from the spec: the class ImageInfo of \<^verbatim>\<open>loris/img_info.py\<close> is not among
  the source files. A record is an opaque descriptive payload and an optional byte
  buffer for the colour profile; it is written as a text (\<^verbatim>\<open>to_json\<close>) and read back
  from one (\<^verbatim>\<open>from_json\<close>, which fails on a text that is not a record). The two
  conversions are parameters of the cache's methods.
\<close>

record 'p image_info =
  payload :: 'p
  color_profile_bytes :: "string option"

record 'p json_codec =
  to_json :: "'p image_info \<Rightarrow> string"
  parse_json :: "string \<Rightarrow> 'p image_info option"

definition from_json :: "'p json_codec \<Rightarrow> world \<Rightarrow> string \<Rightarrow> pyexc + 'p image_info" where
  "from_json J w fp =
     (case read_file w fp of
        Inl e \<Rightarrow> Inl e
      | Inr s \<Rightarrow> (case parse_json J s of None \<Rightarrow> Inl ValueError | Some i \<Rightarrow> Inr i))"

text \<open>
  The ordered dictionary \<^verbatim>\<open>_dict\<close> is an association list in insertion order. Its
  keys are Python objects: the strings \<^verbatim>\<open>request.url\<close> that \<^verbatim>\<open>get\<close> and
  \<^verbatim>\<open>__setitem__\<close> use, and the request object itself that \<^verbatim>\<open>__delitem__\<close> uses; a
  request object equals no string. Its values are the pairs (info, lastmod), and the
  value \<^verbatim>\<open>False\<close> of the entry that \<^verbatim>\<open>OrderedDict(last=False)\<close> starts with.
\<close>

datatype pykey = KStr string | KObj request

datatype 'p pyval = PyFalse | Entry "'p image_info" datetime

record 'p infocache =
  http_root :: string
  https_root :: string
  cache_size :: int
  odict :: "(pykey \<times> 'p pyval) list"

definition InfoCache_init :: "string \<Rightarrow> int \<Rightarrow> 'p infocache" where
  "InfoCache_init root sz =
     \<lparr>http_root = path_join root ''http'',
      https_root = path_join root ''https'',
      cache_size = sz,
      odict = [(KStr ''last'', PyFalse)]\<rparr>"

definition which_root :: "'p infocache \<Rightarrow> request \<Rightarrow> string" where
  "which_root c req = (if startswith (url req) ''https'' then https_root c else http_root c)"

definition ident_from_request :: "request \<Rightarrow> string" where
  "ident_from_request req = str_join ''/'' (butlast (str_split CHR ''/'' (drop 1 (path req))))"

definition get_info_fp :: "'p infocache \<Rightarrow> request \<Rightarrow> string" where
  "get_info_fp c req =
     path_join (path_join (which_root c req) (unquote (ident_from_request req))) ''info.json''"

definition get_color_profile_fp :: "'p infocache \<Rightarrow> request \<Rightarrow> string" where
  "get_color_profile_fp c req =
     path_join (path_join (which_root c req) (unquote (ident_from_request req))) ''profile.icc''"

definition debug :: "world \<Rightarrow> string \<Rightarrow> world" where
  "debug w msg = w\<lparr>log := log w @ [(DEBUG, msg)]\<rparr>"

definition warn :: "world \<Rightarrow> string \<Rightarrow> world" where
  "warn w msg = w\<lparr>log := log w @ [(WARNING, msg)]\<rparr>"

text \<open>Lines 86 to 91 of \<^verbatim>\<open>get\<close>: the bytes of the sidecar file when there is one,
  None otherwise.\<close>

definition read_profile :: "'p infocache \<Rightarrow> world \<Rightarrow> request \<Rightarrow> pyexc + string option" where
  "read_profile c w req =
     (let icc_fp = get_color_profile_fp c req
      in if path_exists w icc_fp
         then (case read_file w icc_fp of Inl e \<Rightarrow> Inl e | Inr b \<Rightarrow> Inr (Some b))
         else Inr None)"

definition InfoCache_get ::
  "'p json_codec \<Rightarrow> 'p infocache \<Rightarrow> world \<Rightarrow> request
     \<Rightarrow> (pyexc + 'p pyval option) \<times> 'p infocache \<times> world" where
  "InfoCache_get J c w req =
     (case map_of (odict c) (KStr (url req)) of
        Some v \<Rightarrow> (Inr (Some v), c, w)
      | None \<Rightarrow>
          (let info_fp = get_info_fp c req
           in if path_exists w info_fp
              then
                (case from_json J w info_fp of
                   Inl e \<Rightarrow> (Inl e, c, w)
                 | Inr info \<Rightarrow>
                     (case read_profile c w req of
                        Inl e \<Rightarrow> (Inl e, c, w)
                      | Inr b \<Rightarrow>
                          (case getmtime w info_fp of
                             Inl e \<Rightarrow> (Inl e, c, w)
                           | Inr t \<Rightarrow>
                               (let v = Entry (info\<lparr>color_profile_bytes := b\<rparr>) (utcfromtimestamp t);
                                    w1 = debug w (''Info for '' @ shown req @ '' read from file system'')
                                in (Inr (Some v),
                                    c\<lparr>odict := AList.update (KStr (url req)) v (odict c)\<rparr>,
                                    w1)))))
              else (Inr None, c, w)))"

definition InfoCache_has_key ::
  "'p infocache \<Rightarrow> world \<Rightarrow> request \<Rightarrow> (pyexc + bool) \<times> 'p infocache \<times> world" where
  "InfoCache_has_key c w req = (Inr (path_exists w (get_info_fp c req)), c, w)"

definition InfoCache_contains ::
  "'p infocache \<Rightarrow> world \<Rightarrow> request \<Rightarrow> (pyexc + bool) \<times> 'p infocache \<times> world" where
  "InfoCache_contains c w req = InfoCache_has_key c w req"

definition InfoCache_getitem ::
  "'p json_codec \<Rightarrow> 'p infocache \<Rightarrow> world \<Rightarrow> request
     \<Rightarrow> (pyexc + 'p pyval) \<times> 'p infocache \<times> world" where
  "InfoCache_getitem J c w req =
     (case InfoCache_get J c w req of
        (Inl e, c1, w1) \<Rightarrow> (Inl e, c1, w1)
      | (Inr None, c1, w1) \<Rightarrow> (Inl KeyError, c1, w1)
      | (Inr (Some v), c1, w1) \<Rightarrow> (Inr v, c1, w1))"

text \<open>Lines 125 to 133 of \<^verbatim>\<open>__setitem__\<close>: the directory is made when it is not
  there, and only EEXIST is swallowed.\<close>

definition setitem_makedirs :: "world \<Rightarrow> string \<Rightarrow> (pyexc + unit) \<times> world" where
  "setitem_makedirs w dp =
     (if \<not> path_isdir w dp
      then
        (case makedirs w dp of
           (Inr u, w1) \<Rightarrow> (Inr (), debug w1 (''Created '' @ dp))
         | (Inl e, w1) \<Rightarrow> (if e = OSError EEXIST then (Inr (), w1) else (Inl e, w1)))
      else (Inr (), w))"

text \<open>Lines 140 to 145: the sidecar is written when the buffer is true in Python's
  sense, that is neither None nor empty.\<close>

definition setitem_profile ::
  "'p infocache \<Rightarrow> world \<Rightarrow> request \<Rightarrow> 'p image_info \<Rightarrow> pyexc + world" where
  "setitem_profile c w req info =
     (case color_profile_bytes info of
        None \<Rightarrow> Inr w
      | Some b \<Rightarrow>
          (if b = [] then Inr w
           else
             (let icc_fp = get_color_profile_fp c req
              in case write_file w icc_fp b of
                   Inl e \<Rightarrow> Inl e
                 | Inr w1 \<Rightarrow> Inr (debug w1 (''Created '' @ icc_fp)))))"

text \<open>Lines 150 and 151: \<^verbatim>\<open>while len(self._dict) >= self.size: self._dict.popitem(last=False)\<close>.
  The oldest entry goes first; \<^verbatim>\<open>popitem\<close> on the empty dictionary raises KeyError.\<close>

fun evict :: "int \<Rightarrow> 'a list \<Rightarrow> (pyexc + unit) \<times> 'a list" where
  "evict n [] = (if n \<le> 0 then (Inl KeyError, []) else (Inr (), []))"
| "evict n (x # xs) = (if n \<le> int (length (x # xs)) then evict n xs else (Inr (), x # xs))"

definition InfoCache_setitem ::
  "'p json_codec \<Rightarrow> 'p infocache \<Rightarrow> world \<Rightarrow> request \<Rightarrow> 'p image_info
     \<Rightarrow> (pyexc + unit) \<times> 'p infocache \<times> world" where
  "InfoCache_setitem J c w req info =
     (let w0 = debug w (''request passed to __setitem__: '' @ shown req);
          info_fp = get_info_fp c req;
          dp = dirname info_fp
      in case setitem_makedirs w0 dp of
           (Inl e, w1) \<Rightarrow> (Inl e, c, w1)
         | (Inr u, w1) \<Rightarrow>
             (case write_file w1 info_fp (to_json J info) of
                Inl e \<Rightarrow> (Inl e, c, w1)
              | Inr w2 \<Rightarrow>
                  (let w3 = debug w2 (''Created '' @ info_fp)
                   in case setitem_profile c w3 req info of
                        Inl e \<Rightarrow> (Inl e, c, w3)
                      | Inr w4 \<Rightarrow>
                          (case getmtime w4 info_fp of
                             Inl e \<Rightarrow> (Inl e, c, w4)
                           | Inr t \<Rightarrow>
                               (case evict (cache_size c) (odict c) of
                                  (Inl e, d) \<Rightarrow> (Inl e, c\<lparr>odict := d\<rparr>, w4)
                                | (Inr u, d) \<Rightarrow>
                                    (Inr (),
                                     c\<lparr>odict :=
                                         AList.update (KStr (url req))
                                           (Entry info (utcfromtimestamp t)) d\<rparr>,
                                     w4))))))"

text \<open>
  \<^verbatim>\<open>__delitem__\<close>. Line 156 deletes the key \<^verbatim>\<open>request\<close>, the object, and raises
  KeyError when the dictionary has no such key. Line 161 calls
  \<^verbatim>\<open>self._getcolor_profile_bytes\<close>; the methods of the class that take a request and
  return a path are the three of \<open>InfoCache_method\<close>, the class has \<^verbatim>\<open>__slots__\<close>, and
  a name that is none of its attributes raises AttributeError. Lines 162 to 165 are
  \<open>delitem_files\<close>.
\<close>

definition InfoCache_method :: "string \<Rightarrow> ('p infocache \<Rightarrow> request \<Rightarrow> string) option" where
  "InfoCache_method name =
     (if name = ''_which_root'' then Some which_root
      else if name = ''_get_info_fp'' then Some get_info_fp
      else if name = ''_get_color_profile_fp'' then Some get_color_profile_fp
      else None)"

definition delitem_files ::
  "'p infocache \<Rightarrow> world \<Rightarrow> request \<Rightarrow> string \<Rightarrow> (pyexc + unit) \<times> 'p infocache \<times> world" where
  "delitem_files c w req icc_fp =
     (case (if path_exists w icc_fp then unlink w icc_fp else Inr w) of
        Inl e \<Rightarrow> (Inl e, c, w)
      | Inr w1 \<Rightarrow>
          (case removedirs w1 (dirname (get_info_fp c req)) of
             (r, w2) \<Rightarrow> (r, c, w2)))"

definition InfoCache_delitem ::
  "'p infocache \<Rightarrow> world \<Rightarrow> request \<Rightarrow> (pyexc + unit) \<times> 'p infocache \<times> world" where
  "InfoCache_delitem c w req =
     (case map_of (odict c) (KObj req) of
        None \<Rightarrow> (Inl KeyError, c, w)
      | Some v \<Rightarrow>
          (let c1 = c\<lparr>odict := AList.delete (KObj req) (odict c)\<rparr>
           in case unlink w (get_info_fp c1 req) of
                Inl e \<Rightarrow> (Inl e, c1, w)
              | Inr w1 \<Rightarrow>
                  (case InfoCache_method ''_getcolor_profile_bytes'' of
                     None \<Rightarrow> (Inl (AttributeError ''_getcolor_profile_bytes''), c1, w1)
                   | Some m \<Rightarrow> delitem_files c1 w1 req (m c1 req))))"

section \<open>The derivative cache: ImageCache\<close>

text \<open>
  An image request has the attributes the cache reads. The class inherits from
  \<^verbatim>\<open>dict\<close>; \<open>dict_items\<close> are the entries of the inherited dictionary, which no
  method of the class reads or writes.
\<close>

record image_request =
  as_path :: string
  canonical_as_path :: string
  is_canonical :: bool

record imagecache =
  cache_root :: string
  dict_items :: "(image_request \<times> string) list"

definition ImageCache_init :: "string \<Rightarrow> imagecache" where
  "ImageCache_init root = \<lparr>cache_root = root, dict_items = []\<rparr>"

definition get_request_cache_path :: "imagecache \<Rightarrow> world \<Rightarrow> image_request \<Rightarrow> string" where
  "get_request_cache_path c w req = realpath w (path_join (cache_root c) (unquote (as_path req)))"

definition get_canonical_cache_path :: "imagecache \<Rightarrow> world \<Rightarrow> image_request \<Rightarrow> string" where
  "get_canonical_cache_path c w req =
     realpath w (path_join (cache_root c) (unquote (canonical_as_path req)))"

definition ImageCache_contains ::
  "imagecache \<Rightarrow> world \<Rightarrow> image_request \<Rightarrow> (pyexc + bool) \<times> imagecache \<times> world" where
  "ImageCache_contains c w req = (Inr (path_exists w (get_request_cache_path c w req)), c, w)"

definition ImageCache_get ::
  "imagecache \<Rightarrow> world \<Rightarrow> image_request
     \<Rightarrow> (pyexc + (string \<times> datetime) option) \<times> imagecache \<times> world" where
  "ImageCache_get c w req =
     (let cache_fp = get_request_cache_path c w req
      in case getmtime w cache_fp of
           Inl e \<Rightarrow> (Inl e, c, w)
         | Inr t \<Rightarrow>
             (let last_mod = utcfromtimestamp t
              in if path_exists w cache_fp
                 then (Inr (Some (cache_fp, last_mod)), c, w)
                 else (Inr None, c, w)))"

definition ImageCache_getitem ::
  "imagecache \<Rightarrow> world \<Rightarrow> image_request
     \<Rightarrow> (pyexc + string \<times> datetime) \<times> imagecache \<times> world" where
  "ImageCache_getitem c w req =
     (case ImageCache_get c w req of
        (Inl e, c1, w1) \<Rightarrow> (Inl e, c1, w1)
      | (Inr None, c1, w1) \<Rightarrow> (Inl KeyError, c1, w1)
      | (Inr (Some fp), c1, w1) \<Rightarrow> (Inr fp, c1, w1))"

definition link :: "world \<Rightarrow> string \<Rightarrow> string \<Rightarrow> (pyexc + unit) \<times> world" where
  "link w source link_name =
     (if source = link_name
      then (Inr (),
            warn w (''Circular symlink requested from '' @ link_name @ '' to '' @ source
                    @ ''; not creating symlink''))
      else
        (let link_dp = dirname link_name
         in case (if \<not> path_exists w link_dp then makedirs w link_dp else (Inr (), w)) of
              (Inl e, w1) \<Rightarrow> (Inl e, w1)
            | (Inr u, w1) \<Rightarrow>
                (case (if path_lexists w1 link_name then unlink w1 link_name else Inr w1) of
                   Inl e \<Rightarrow> (Inl e, w1)
                 | Inr w2 \<Rightarrow>
                     (case symlink w2 source link_name of
                        Inl e \<Rightarrow> (Inl e, w2)
                      | Inr w3 \<Rightarrow>
                          (Inr (),
                           debug w3 (''Made symlink from '' @ link_name @ '' to '' @ source))))))"

definition ImageCache_setitem ::
  "imagecache \<Rightarrow> world \<Rightarrow> image_request \<Rightarrow> string \<Rightarrow> (pyexc + unit) \<times> imagecache \<times> world" where
  "ImageCache_setitem c w req canonical_fp =
     (if \<not> is_canonical req
      then
        (let requested_fp = get_request_cache_path c w req
         in case link w canonical_fp requested_fp of
              (r, w1) \<Rightarrow> (r, c, w1))
      else (Inr (), c, w))"

definition ImageCache_delitem ::
  "imagecache \<Rightarrow> world \<Rightarrow> image_request \<Rightarrow> (pyexc + unit) \<times> imagecache \<times> world" where
  "ImageCache_delitem c w req = (Inr (), c, w)"

definition create_dir_and_return_file_path ::
  "imagecache \<Rightarrow> world \<Rightarrow> image_request \<Rightarrow> (pyexc + string) \<times> imagecache \<times> world" where
  "create_dir_and_return_file_path c w req =
     (let target_fp = get_canonical_cache_path c w req;
          target_dp = dirname target_fp
      in case makedirs w target_dp of
           (Inl e, w1) \<Rightarrow> (if e = OSError EEXIST then (Inr target_fp, c, w1) else (Inl e, c, w1))
         | (Inr u, w1) \<Rightarrow> (Inr target_fp, c, w1))"

section \<open>Concrete requests, records and worlds\<close>

text \<open>
  The inputs of the scenarios below: a codec whose text form is the payload itself,
  requests for the identifiers \<^verbatim>\<open>a\<close>, \<^verbatim>\<open>b\<close>, \<^verbatim>\<open>c\<close> and \<^verbatim>\<open>a/b\<close>, a record with a
  colour profile and one with an empty buffer, an empty file system at time 7, and a
  metadata cache of capacity 2 rooted at \<^verbatim>\<open>/c\<close>.
\<close>

definition text_codec :: "string json_codec" where
  "text_codec =
     \<lparr>to_json = payload,
      parse_json = (\<lambda>s. Some \<lparr>payload = s, color_profile_bytes = None\<rparr>)\<rparr>"

definition req_a :: request where
  "req_a = \<lparr>url = ''http://h/a/info.json'', path = ''/a/info.json'', shown = ''A''\<rparr>"

definition req_b :: request where
  "req_b = \<lparr>url = ''http://h/b/info.json'', path = ''/b/info.json'', shown = ''B''\<rparr>"

definition req_c :: request where
  "req_c = \<lparr>url = ''http://h/c/info.json'', path = ''/c/info.json'', shown = ''C''\<rparr>"


definition rec_x :: "string image_info" where
  "rec_x = \<lparr>payload = ''x'', color_profile_bytes = Some ''P''\<rparr>"

definition rec_y :: "string image_info" where
  "rec_y = \<lparr>payload = ''y'', color_profile_bytes = Some []\<rparr>"

definition empty_world :: world where
  "empty_world = \<lparr>nodes = [], cwd = [], now = 7, log = []\<rparr>"

definition fresh_cache :: "string infocache" where
  "fresh_cache = InfoCache_init ''/c'' 2"

text \<open>One put of \<open>rec_x\<close> for \<^verbatim>\<open>a\<close>.\<close>

definition one_put :: "(pyexc + unit) \<times> string infocache \<times> world" where
  "one_put = InfoCache_setitem text_codec fresh_cache empty_world req_a rec_x"

text \<open>Puts for \<^verbatim>\<open>a\<close>, \<^verbatim>\<open>b\<close> and \<^verbatim>\<open>c\<close>, in this order.\<close>

definition three_puts :: "(pyexc + unit) \<times> string infocache \<times> world" where
  "three_puts =
     (case one_put of
        (r1, c1, w1) \<Rightarrow>
          (case InfoCache_setitem text_codec c1 w1 req_b rec_x of
             (r2, c2, w2) \<Rightarrow> InfoCache_setitem text_codec c2 w2 req_c rec_x))"


text \<open>A put of \<open>rec_x\<close> for \<^verbatim>\<open>a\<close> and, at time 9, a put of \<open>rec_y\<close> for \<^verbatim>\<open>a\<close>.\<close>

definition put_again :: "(pyexc + unit) \<times> string infocache \<times> world" where
  "put_again =
     (case one_put of
        (r1, c1, w1) \<Rightarrow> InfoCache_setitem text_codec c1 (w1\<lparr>now := 9\<rparr>) req_a rec_y)"

text \<open>One put of \<open>rec_y\<close>, whose buffer is empty, for \<^verbatim>\<open>a\<close>.\<close>

definition put_empty :: "(pyexc + unit) \<times> string infocache \<times> world" where
  "put_empty = InfoCache_setitem text_codec fresh_cache empty_world req_a rec_y"

text \<open>A derivative cache rooted at \<^verbatim>\<open>/c\<close>, the canonical artifact \<^verbatim>\<open>/c/a\<close>, and the
  alias \<^verbatim>\<open>/c/r\<close> that an earlier put made for the request \<^verbatim>\<open>r\<close>.\<close>

definition img_cache :: imagecache where
  "img_cache = ImageCache_init ''/c''"

definition aliased_world :: world where
  "aliased_world =
     \<lparr>nodes = [([''c''], Dir 1), ([''c'', ''a''], File ''img'' 1),
               ([''c'', ''r''], Symlink ''/c/a'')],
      cwd = [], now = 7, log = []\<rparr>"

definition req_r :: image_request where
  "req_r = \<lparr>as_path = ''r'', canonical_as_path = ''a'', is_canonical = False\<rparr>"

definition req_can :: image_request where
  "req_can = \<lparr>as_path = ''a'', canonical_as_path = ''a'', is_canonical = True\<rparr>"

section \<open>Properties of the metadata cache\<close>

lemma evict_bound: "evict n d = (Inr (), d') \<Longrightarrow> int (length d') < n"
  by (induction d) (auto split: if_splits)

lemma update_length_le: "length (AList.update k v al) \<le> Suc (length al)"
  by (induction al) auto

lemma update_length_new:
  "map_of al k = None \<Longrightarrow> length (AList.update k v al) = Suc (length al)"
  by (induction al) (auto split: if_splits)

lemma touch_dir_is_dir: "is_dir_at (touch_dir w p) k = is_dir_at w k"
  by (auto simp: touch_dir_def is_dir_at_def node_at_def update_conv'
           split: option.splits node.splits)

lemma unlink_keeps_dirs:
  assumes "unlink w p = Inr w1"
  shows "is_dir_at w1 k = is_dir_at w k"
proof -
  from assms obtain q where q: "resolve w False p = Inr q"
    and n: "\<forall>t. node_at w q \<noteq> Some (Dir t)" "node_at w q \<noteq> None"
    and w1: "w1 = del_node w q"
    by (auto simp: unlink_def split: sum.splits option.splits node.splits)
  have "q \<noteq> []"
    using n by (auto simp: node_at_def)
  then have "is_dir_at (w\<lparr>nodes := AList.delete q (nodes w)\<rparr>) k = is_dir_at w k"
    using n
    by (auto simp: is_dir_at_def node_at_def delete_conv' split: option.splits node.splits)
  then show ?thesis
    by (simp add: w1 del_node_def touch_dir_is_dir)
qed

text \<open>
  Claim C1. The memory map holds at most the configured capacity after every operation:
  put, and a get that misses in memory and reads the record from disk, evict the oldest
  entry before they insert into a full map.

  The code of \<^verbatim>\<open>get\<close> inserts without evicting. With capacity 2, after puts for
  \<^verbatim>\<open>a\<close>, \<^verbatim>\<open>b\<close> and \<^verbatim>\<open>c\<close> the map holds \<^verbatim>\<open>b\<close> and \<^verbatim>\<open>c\<close>; the get for \<^verbatim>\<open>a\<close>
  then reads the record from disk and leaves three entries in the map.
\<close>

theorem get_rehydration_exceeds_capacity:
  "(case three_puts of
      (r, c, w) \<Rightarrow>
        r = Inr () \<and> cache_size c = 2
        \<and> map fst (odict c) = [KStr (url req_b), KStr (url req_c)]
        \<and> (case InfoCache_get text_codec c w req_a of
              (r', c', w') \<Rightarrow>
                r' = Inr (Some (Entry rec_x (Datetime 7))) \<and> cache_size c' = 2
                \<and> map fst (odict c') = [KStr (url req_b), KStr (url req_c), KStr (url req_a)]))"
  by code_simp

text \<open>
  Claim C3. For an identity that is in the memory map and on disk, delete removes the
  memory entry, the info file and the sidecar file, and a later get on a cache with an
  empty memory is a miss.

  After a put for \<^verbatim>\<open>a\<close> the map has the entry under the key \<^verbatim>\<open>request.url\<close> and both
  files are on disk. \<^verbatim>\<open>__delitem__\<close> looks the request object up, finds no such key and
  raises KeyError; the map and the files are as before.
\<close>

theorem InfoCache_delitem_raises_KeyError:
  "(case one_put of
      (r, c, w) \<Rightarrow>
        r = Inr ()
        \<and> map_of (odict c) (KStr (url req_a)) = Some (Entry rec_x (Datetime 7))
        \<and> path_exists w (get_info_fp c req_a)
        \<and> path_exists w (get_color_profile_fp c req_a)
        \<and> InfoCache_delitem c w req_a = (Inl KeyError, c, w))"
  by code_simp

text \<open>
  Claim C4. A put of a record for an identity followed by a get for it returns that
  record, paired with the modification time the info file had when the put had written
  it. The put is one that returns; the get is answered from the memory map, whatever the
  file system holds by then.
\<close>

theorem InfoCache_put_then_get:
  assumes "InfoCache_setitem J c w req info = (Inr (), c', w')"
  shows "\<exists>t. getmtime w' (get_info_fp c req) = Inr t
           \<and> (\<forall>w''. InfoCache_get J c' w'' req
                     = (Inr (Some (Entry info (utcfromtimestamp t))), c', w''))"
  using assms
  by (auto simp: InfoCache_setitem_def InfoCache_get_def Let_def update_conv'
           split: prod.splits sum.splits)

theorem InfoCache_put_then_get_witness:
  "fst one_put = Inr ()
   \<and> getmtime (snd (snd one_put)) (get_info_fp fresh_cache req_a) = Inr 7
   \<and> (\<exists>t. getmtime (snd (snd one_put)) (get_info_fp fresh_cache req_a) = Inr t
          \<and> (\<forall>w''. InfoCache_get text_codec (fst (snd one_put)) w'' req_a
                    = (Inr (Some (Entry rec_x (utcfromtimestamp t))), fst (snd one_put), w'')))"
proof -
  have a: "fst one_put = Inr ()"
    by code_simp
  have b: "getmtime (snd (snd one_put)) (get_info_fp fresh_cache req_a) = Inr 7"
    by code_simp
  have c: "InfoCache_setitem text_codec fresh_cache empty_world req_a rec_x
             = (Inr (), fst (snd one_put), snd (snd one_put))"
    using a by (metis one_put_def prod.collapse)
  show ?thesis
    using a b InfoCache_put_then_get [OF c] by blast
qed


text \<open>
  Claim C8. For every identity and every state of the memory map, contains returns
  exactly whether the info file exists on disk, and the call leaves the memory map (and
  the rest of the cache object and the world) as it was.
\<close>

theorem InfoCache_has_key_disk_only:
  "InfoCache_has_key (c\<lparr>odict := d\<rparr>) w req
     = (Inr (path_exists w (get_info_fp c req)), c\<lparr>odict := d\<rparr>, w)
   \<and> InfoCache_contains (c\<lparr>odict := d\<rparr>) w req
     = (Inr (path_exists w (get_info_fp c req)), c\<lparr>odict := d\<rparr>, w)"
  by (simp add: InfoCache_contains_def InfoCache_has_key_def get_info_fp_def which_root_def)

text \<open>
  Claim C9. When the colour-profile buffer of a record is empty or absent, put writes
  no sidecar file, and so a later get that reads the identity from disk returns the
  record with the buffer None.

  Put does not remove a sidecar file either. As amended: with an empty or absent buffer,
  the last thing a put that returns does to the world is to write the info file and log
  it, so it writes no sidecar file; a get that misses in memory and returns an entry read
  from disk returns it with the buffer None when no sidecar file exists then, and with
  the bytes of the sidecar file that does exist otherwise.
\<close>

theorem empty_profile_rehydration:
  assumes e: "color_profile_bytes info = None \<or> color_profile_bytes info = Some []"
      and p: "InfoCache_setitem J c w req info = (Inr (), c1, w1)"
      and m: "map_of (odict c') (KStr (url req)) = None"
      and g: "InfoCache_get J c' w' req = (Inr (Some v), c'', w'')"
  shows "(\<exists>w2. write_file
                 (snd (setitem_makedirs
                         (debug w (''request passed to __setitem__: '' @ shown req))
                         (dirname (get_info_fp c req))))
                 (get_info_fp c req) (to_json J info) = Inr w2
              \<and> w1 = debug w2 (''Created '' @ get_info_fp c req))
         \<and> (\<exists>i t. v = Entry i t
               \<and> (if path_exists w' (get_color_profile_fp c' req)
                   then \<exists>b. read_file w' (get_color_profile_fp c' req) = Inr b
                            \<and> color_profile_bytes i = Some b
                   else color_profile_bytes i = None))"
proof -
  have a: "setitem_profile c w3 req info = Inr w3" for w3
    using e by (auto simp: setitem_profile_def)
  have b: "\<exists>w2. write_file
                 (snd (setitem_makedirs
                         (debug w (''request passed to __setitem__: '' @ shown req))
                         (dirname (get_info_fp c req))))
                 (get_info_fp c req) (to_json J info) = Inr w2
              \<and> w1 = debug w2 (''Created '' @ get_info_fp c req)"
    using p
    by (auto simp: InfoCache_setitem_def Let_def a split: prod.splits sum.splits)
  have d: "\<exists>i t. v = Entry i t
               \<and> (if path_exists w' (get_color_profile_fp c' req)
                   then \<exists>b. read_file w' (get_color_profile_fp c' req) = Inr b
                            \<and> color_profile_bytes i = Some b
                   else color_profile_bytes i = None)"
    using m g
    by (auto simp: InfoCache_get_def read_profile_def Let_def split: if_splits sum.splits)
  show ?thesis
    using b d by blast
qed

theorem empty_profile_rehydration_witness:
  "color_profile_bytes rec_y = Some []
   \<and> fst put_empty = Inr ()
   \<and> map_of (odict fresh_cache) (KStr (url req_a)) = None
   \<and> fst (InfoCache_get text_codec fresh_cache (snd (snd put_empty)) req_a)
       = Inr (Some (Entry \<lparr>payload = ''y'', color_profile_bytes = None\<rparr> (Datetime 7)))
   \<and> \<not> path_exists (snd (snd put_empty)) (get_color_profile_fp fresh_cache req_a)
   \<and> (\<exists>w2. write_file
                 (snd (setitem_makedirs
                         (debug empty_world (''request passed to __setitem__: '' @ shown req_a))
                         (dirname (get_info_fp fresh_cache req_a))))
                 (get_info_fp fresh_cache req_a) (to_json text_codec rec_y) = Inr w2
              \<and> snd (snd put_empty) = debug w2 (''Created '' @ get_info_fp fresh_cache req_a))"
proof -
  let ?G = "InfoCache_get text_codec fresh_cache (snd (snd put_empty)) req_a"
  let ?v = "Entry \<lparr>payload = ''y'', color_profile_bytes = None\<rparr> (Datetime 7)"
  have a: "color_profile_bytes rec_y = Some []"
    by code_simp
  have p: "fst put_empty = Inr ()"
    by code_simp
  have m: "map_of (odict fresh_cache) (KStr (url req_a)) = None"
    by code_simp
  have g: "fst ?G = Inr (Some ?v)"
    by code_simp
  have n: "\<not> path_exists (snd (snd put_empty)) (get_color_profile_fp fresh_cache req_a)"
    by code_simp
  have p': "InfoCache_setitem text_codec fresh_cache empty_world req_a rec_y
              = (Inr (), fst (snd put_empty), snd (snd put_empty))"
    using p by (metis put_empty_def prod.collapse)
  have g': "?G = (Inr (Some ?v), fst (snd ?G), snd (snd ?G))"
    using g by (metis prod.collapse)
  have e: "color_profile_bytes rec_y = None \<or> color_profile_bytes rec_y = Some []"
    using a by simp
  show ?thesis
    using a p m g n empty_profile_rehydration [OF e p' m g'] by blast
qed

text \<open>
  Claim C9 as stated fails where an earlier put left a sidecar file. A put of a record
  with the profile \<^verbatim>\<open>P\<close> for \<^verbatim>\<open>a\<close> is followed by a put of a record with an empty
  buffer for \<^verbatim>\<open>a\<close>; a cache with an empty memory then reads the second record from
  disk with the profile \<^verbatim>\<open>P\<close> of the first, not None.
\<close>

theorem stale_sidecar_counterexample:
  "(case put_again of
      (r, c, w) \<Rightarrow>
        r = Inr ()
        \<and> fst (InfoCache_get text_codec fresh_cache w req_a)
            = Inr (Some (Entry \<lparr>payload = ''y'', color_profile_bytes = Some ''P''\<rparr>
                           (Datetime 9))))"
  by code_simp

section \<open>Properties of the derivative cache\<close>

text \<open>
  Claim C2. For an identity whose backing file does not exist, get returns an empty
  result; a miss is never an exception.

  The code of \<^verbatim>\<open>get\<close> asks for the modification time at line 69, before it asks at
  line 70 whether the file exists. On the empty file system the path of the request
  \<^verbatim>\<open>r\<close> does not exist and get raises OSError with ENOENT.
\<close>

theorem ImageCache_get_missing_file_raises:
  "\<not> path_exists empty_world (get_request_cache_path img_cache empty_world req_r)
   \<and> ImageCache_get img_cache empty_world req_r
       = (Inl (OSError ENOENT), img_cache, empty_world)"
  by code_simp

text \<open>
  Claim C6. A put whose computed requested path equals the canonical path creates no
  symbolic link, changes nothing in the file system, raises no error and logs a warning.
  Put computes the requested path for an identity that is not flagged canonical; the
  world it leaves differs from the one it found by the warning alone.
\<close>

theorem ImageCache_put_collapse_warns:
  assumes "\<not> is_canonical req"
      and "get_request_cache_path c w req = canonical_fp"
  shows "ImageCache_setitem c w req canonical_fp =
           (Inr (), c,
            w\<lparr>log := log w @
                 [(WARNING,
                   ''Circular symlink requested from '' @ canonical_fp @ '' to ''
                     @ canonical_fp @ ''; not creating symlink'')]\<rparr>)"
  using assms by (simp add: ImageCache_setitem_def link_def warn_def)

theorem ImageCache_put_collapse_warns_witness:
  "\<not> is_canonical req_r
   \<and> get_request_cache_path img_cache aliased_world req_r = ''/c/a''
   \<and> ImageCache_setitem img_cache aliased_world req_r ''/c/a'' =
       (Inr (), img_cache,
        aliased_world\<lparr>log := log aliased_world @
                 [(WARNING,
                   ''Circular symlink requested from '' @ ''/c/a'' @ '' to ''
                     @ ''/c/a'' @ ''; not creating symlink'')]\<rparr>)"
proof -
  have a: "\<not> is_canonical req_r"
    by code_simp
  have b: "get_request_cache_path img_cache aliased_world req_r = ''/c/a''"
    by code_simp
  show ?thesis
    using a b ImageCache_put_collapse_warns [OF a b] by blast
qed

text \<open>
  Claim C7. For an identity whose is-canonical flag is true, put is a no-op: no link is
  made, and the cache object and the world are as before.
\<close>

theorem ImageCache_put_canonical_noop:
  "is_canonical req \<Longrightarrow> ImageCache_setitem c w req canonical_fp = (Inr (), c, w)"
  by (simp add: ImageCache_setitem_def)

theorem ImageCache_put_canonical_noop_witness:
  "is_canonical req_can
   \<and> ImageCache_setitem img_cache aliased_world req_can ''/c/a''
       = (Inr (), img_cache, aliased_world)"
proof -
  have a: "is_canonical req_can"
    by code_simp
  show ?thesis
    using a ImageCache_put_canonical_noop [OF a] by blast
qed

text \<open>
  Claim C10. The delete of the derivative cache is a no-op for every identity: it raises
  nothing and leaves the cache object, the entries of the inherited dictionary included,
  and the world as they were.
\<close>

theorem ImageCache_delitem_noop:
  "ImageCache_delitem c w req = (Inr (), c, w)"
  by (simp add: ImageCache_delitem_def)

section \<open>Further properties\<close>

text \<open>A put that returns leaves no more entries in the memory map than the capacity.\<close>

theorem InfoCache_setitem_bound:
  assumes "InfoCache_setitem J c w req info = (Inr (), c', w')"
  shows "cache_size c' = cache_size c \<and> int (length (odict c')) \<le> cache_size c"
proof -
  from assms obtain d v where d: "evict (cache_size c) (odict c) = (Inr (), d)"
     and c': "c' = c\<lparr>odict := AList.update (KStr (url req)) v d\<rparr>"
    by (auto simp: InfoCache_setitem_def Let_def split: prod.splits sum.splits)
  show ?thesis
    using evict_bound [OF d] update_length_le [of "KStr (url req)" v d] c' by simp
qed

theorem InfoCache_setitem_bound_witness:
  "fst one_put = Inr ()
   \<and> cache_size (fst (snd one_put)) = cache_size fresh_cache
   \<and> int (length (odict (fst (snd one_put)))) \<le> cache_size fresh_cache"
proof -
  have a: "fst one_put = Inr ()"
    by code_simp
  have c: "InfoCache_setitem text_codec fresh_cache empty_world req_a rec_x
             = (Inr (), fst (snd one_put), snd (snd one_put))"
    using a by (metis one_put_def prod.collapse)
  show ?thesis
    using a InfoCache_setitem_bound [OF c] by blast
qed

text \<open>A get that misses in memory and returns an entry read from disk adds one entry
  to the memory map, whatever the capacity and the number of entries.\<close>

theorem InfoCache_get_rehydration_grows:
  assumes "map_of (odict c) (KStr (url req)) = None"
      and "InfoCache_get J c w req = (Inr (Some v), c', w')"
  shows "length (odict c') = Suc (length (odict c)) \<and> cache_size c' = cache_size c"
  using assms
  by (auto simp: InfoCache_get_def Let_def update_length_new split: if_splits sum.splits)

theorem InfoCache_get_rehydration_grows_witness:
  "map_of (odict fresh_cache) (KStr (url req_a)) = None
   \<and> fst (InfoCache_get text_codec fresh_cache (snd (snd one_put)) req_a)
       = Inr (Some (Entry rec_x (Datetime 7)))
   \<and> length (odict (fst (snd (InfoCache_get text_codec fresh_cache (snd (snd one_put)) req_a))))
       = Suc (length (odict fresh_cache))"
proof -
  let ?G = "InfoCache_get text_codec fresh_cache (snd (snd one_put)) req_a"
  have m: "map_of (odict fresh_cache) (KStr (url req_a)) = None"
    by code_simp
  have g: "fst ?G = Inr (Some (Entry rec_x (Datetime 7)))"
    by code_simp
  have g': "?G = (Inr (Some (Entry rec_x (Datetime 7))), fst (snd ?G), snd (snd ?G))"
    using g by (metis prod.collapse)
  show ?thesis
    using m g InfoCache_get_rehydration_grows [OF m g'] by blast
qed

text \<open>The delete of the metadata cache raises for every cache object, world and
  request: KeyError at line 156, what \<^verbatim>\<open>unlink\<close> raises at line 159, or AttributeError
  at line 161.\<close>

theorem InfoCache_delitem_always_raises:
  "\<exists>e. fst (InfoCache_delitem c w req) = Inl e"
  by (auto simp: InfoCache_delitem_def InfoCache_method_def Let_def
           split: option.splits sum.splits)

text \<open>The delete of the metadata cache removes no directory: whatever it raises, the
  world it leaves has a directory exactly where the world it found has one.\<close>

theorem InfoCache_delitem_removes_no_directory:
  "\<exists>e c' w'. InfoCache_delitem c w req = (Inl e, c', w')
              \<and> (\<forall>q. is_dir_at w' q = is_dir_at w q)"
  by (auto simp: InfoCache_delitem_def InfoCache_method_def Let_def unlink_keeps_dirs
           split: option.splits sum.splits)

text \<open>The get of the derivative cache never returns a miss: where the file does not
  exist it has raised at line 69.\<close>

theorem ImageCache_get_never_misses:
  "fst (ImageCache_get c w req) \<noteq> Inr None"
  by (auto simp: ImageCache_get_def Let_def getmtime_def path_exists_def
           split: sum.splits node.splits)

end
